theory Spec2Isabelle
  imports Complex_Main
begin

section \<open>Floating-point values\<close>

text \<open>
  The tuners of \<^verbatim>\<open>btb/tuning/gp.py\<close> compute with numpy \<^verbatim>\<open>float64\<close> values. A value is
  modelled as a finite number, idealised as an exact real (rounding, overflow and the sign
  of zero are not modelled), or one of the IEEE special values, whose arithmetic is written
  out: numpy does not raise on a division by zero or on an undefined operation, it returns
  an infinity or NaN (and emits a warning). The rounding and the overflow of binary64 are
  added to these operations in the section on binary64 arithmetic, for the properties
  that depend on them.
\<close>

datatype fl = Fin real | PInf | NInf | NaN

fun fl_neg :: "fl \<Rightarrow> fl" where
  "fl_neg (Fin a) = Fin (- a)"
| "fl_neg PInf = NInf"
| "fl_neg NInf = PInf"
| "fl_neg NaN = NaN"

fun fl_add :: "fl \<Rightarrow> fl \<Rightarrow> fl" where
  "fl_add NaN _ = NaN"
| "fl_add _ NaN = NaN"
| "fl_add (Fin a) (Fin b) = Fin (a + b)"
| "fl_add PInf NInf = NaN"
| "fl_add NInf PInf = NaN"
| "fl_add PInf _ = PInf"
| "fl_add NInf _ = NInf"
| "fl_add (Fin a) b = b"

definition fl_sub :: "fl \<Rightarrow> fl \<Rightarrow> fl" where
  "fl_sub a b = fl_add a (fl_neg b)"

text \<open>The sign of an extended value: \<open>1\<close>, \<open>-1\<close>, or \<open>0\<close> for zero.\<close>

fun fl_sign :: "fl \<Rightarrow> int" where
  "fl_sign (Fin a) = (if 0 < a then 1 else if a < 0 then - 1 else 0)"
| "fl_sign PInf = 1"
| "fl_sign NInf = - 1"
| "fl_sign NaN = 0"

definition signed_inf :: "int \<Rightarrow> fl" where
  "signed_inf s = (if 0 < s then PInf else if s < 0 then NInf else NaN)"

fun fl_mul :: "fl \<Rightarrow> fl \<Rightarrow> fl" where
  "fl_mul NaN _ = NaN"
| "fl_mul _ NaN = NaN"
| "fl_mul (Fin a) (Fin b) = Fin (a * b)"
| "fl_mul a b = signed_inf (fl_sign a * fl_sign b)"

fun fl_div :: "fl \<Rightarrow> fl \<Rightarrow> fl" where
  "fl_div NaN _ = NaN"
| "fl_div _ NaN = NaN"
| "fl_div (Fin a) (Fin b) = (if b = 0 then signed_inf (fl_sign (Fin a)) else Fin (a / b))"
| "fl_div (Fin a) _ = Fin 0"
| "fl_div a (Fin b) = signed_inf (fl_sign a * (if b < 0 then - 1 else 1))"
| "fl_div _ _ = NaN"

text \<open>IEEE comparisons: every comparison with NaN is false.\<close>

fun fl_le :: "fl \<Rightarrow> fl \<Rightarrow> bool" where
  "fl_le NaN _ = False"
| "fl_le _ NaN = False"
| "fl_le (Fin a) (Fin b) = (a \<le> b)"
| "fl_le NInf _ = True"
| "fl_le _ PInf = True"
| "fl_le _ _ = False"

fun fl_less :: "fl \<Rightarrow> fl \<Rightarrow> bool" where
  "fl_less NaN _ = False"
| "fl_less _ NaN = False"
| "fl_less (Fin a) (Fin b) = (a < b)"
| "fl_less PInf _ = False"
| "fl_less _ NInf = False"
| "fl_less _ _ = True"

fun np_exp :: "fl \<Rightarrow> fl" where
  "np_exp (Fin a) = Fin (exp a)"
| "np_exp PInf = PInf"
| "np_exp NInf = Fin 0"
| "np_exp NaN = NaN"

section \<open>External collaborators\<close>

subsection \<open>The standard normal distribution (\<^verbatim>\<open>scipy.stats.norm\<close>)\<close>

text \<open>
  \<^verbatim>\<open>norm.pdf\<close> and \<^verbatim>\<open>norm.cdf\<close> are the density and the distribution function of the
  standard normal distribution. The density has a closed form. The distribution function
  is given by its power series at \<open>0\<close>, the term-by-term integral of the series of the
  density: \<open>\<Phi>(x) = 1/2 + (1/\<surd>(2\<pi>)) \<Sum>k. (-1/2)^k x^(2k+1) / (k! (2k+1))\<close>. It is the function
  with value \<open>1/2\<close> at \<open>0\<close> whose derivative is the density (both proved below).
\<close>

definition std_normal_pdf :: "real \<Rightarrow> real" where
  "std_normal_pdf x = exp (- (x\<^sup>2) / 2) / sqrt (2 * pi)"

definition cdf_coeff :: "nat \<Rightarrow> real" where
  "cdf_coeff n = (if even n then 0
                  else (- 1 / 2) ^ ((n - 1) div 2) / (fact ((n - 1) div 2) * real n))"

definition std_normal_cdf :: "real \<Rightarrow> real" where
  "std_normal_cdf x = 1 / 2 + (\<Sum>n. cdf_coeff n * x ^ n) / sqrt (2 * pi)"

text \<open>On the special values scipy returns the limits, and NaN for NaN.\<close>

fun norm_pdf :: "fl \<Rightarrow> fl" where
  "norm_pdf (Fin x) = Fin (std_normal_pdf x)"
| "norm_pdf PInf = Fin 0"
| "norm_pdf NInf = Fin 0"
| "norm_pdf NaN = NaN"

fun norm_cdf :: "fl \<Rightarrow> fl" where
  "norm_cdf (Fin x) = Fin (std_normal_cdf x)"
| "norm_cdf PInf = Fin 1"
| "norm_cdf NInf = Fin 0"
| "norm_cdf NaN = NaN"

subsection \<open>Python and numpy operations\<close>

datatype py_error = AttributeError | IndexError | ValueError

text \<open>
  A numpy array of one dimension, or of two: \<open>Arr2 c rows\<close> has shape
  \<open>(length rows, c)\<close>, every row holding \<open>c\<close> values.
\<close>

datatype ndarray = Arr1 "fl list" | Arr2 nat "fl list list"

fun wf_ndarray :: "ndarray \<Rightarrow> bool" where
  "wf_ndarray (Arr1 xs) = True"
| "wf_ndarray (Arr2 c rows) = list_all (\<lambda>r. length r = c) rows"

fun shape :: "ndarray \<Rightarrow> nat list" where
  "shape (Arr1 xs) = [length xs]"
| "shape (Arr2 c rows) = [length rows, c]"

text \<open>
  \<^verbatim>\<open>np.argmax\<close> keeps the running maximum \<open>mp\<close> and its index, replaces them at a value
  \<open>v\<close> for which \<open>v <= mp\<close> is false, and stops at the first NaN, which counts as maximal:
  the result is the index of the first NaN if there is one, of the first occurrence of the
  maximum otherwise. An empty sequence raises \<^verbatim>\<open>ValueError\<close>.
\<close>

fun argmax_from :: "fl \<Rightarrow> nat \<Rightarrow> nat \<Rightarrow> fl list \<Rightarrow> nat" where
  "argmax_from mp max_ind i [] = max_ind"
| "argmax_from mp max_ind i (v # vs) =
     (if fl_le v mp then argmax_from mp max_ind (Suc i) vs
      else if v = NaN then i
      else argmax_from v i (Suc i) vs)"

definition np_argmax :: "fl list \<Rightarrow> py_error + nat" where
  "np_argmax xs =
     (case xs of
        [] \<Rightarrow> Inl ValueError
      | v # vs \<Rightarrow> Inr (if v = NaN then 0 else argmax_from v 0 1 vs))"

text \<open>\<^verbatim>\<open>np.max\<close> of the observed scores (finite numbers); empty input raises.\<close>

definition np_max :: "real list \<Rightarrow> py_error + real" where
  "np_max xs = (case xs of [] \<Rightarrow> Inl ValueError | v # vs \<Rightarrow> Inr (fold max vs v))"

text \<open>\<^verbatim>\<open>np.mean\<close> of an empty list is NaN (with a warning), not an error.\<close>

definition np_mean :: "real list \<Rightarrow> fl" where
  "np_mean xs = (if xs = [] then NaN else Fin (sum_list xs / real (length xs)))"

text \<open>The slice \<^verbatim>\<open>xs[s:]\<close>: a negative start counts from the end, and both are clipped.\<close>

definition py_slice_from :: "int \<Rightarrow> 'a list \<Rightarrow> 'a list" where
  "py_slice_from s xs =
     (let n = int (length xs);
          i = (if s < 0 then max (n + s) 0 else min s n)
      in drop (nat i) xs)"

subsection \<open>The regression engine and the uniform selector\<close>

type_synonym vec = "real list"

datatype kernel = Matern real

text \<open>
  A \<^verbatim>\<open>GaussianProcessRegressor\<close>: its constructor arguments (\<open>kernel = None\<close> is the
  engine's default kernel) and the data it was last fitted on. Fitting is the engine's
  business and is taken to succeed; what the engine predicts is external as well:
  \<open>gp_predict\<close> below.
\<close>

record regressor =
  kernel :: "kernel option"
  normalize_y :: bool
  fitted :: "(vec list \<times> real list) option"

definition GaussianProcessRegressor :: "kernel option \<Rightarrow> bool \<Rightarrow> regressor" where
  "GaussianProcessRegressor k n = \<lparr>kernel = k, normalize_y = n, fitted = None\<rparr>"

definition regressor_fit :: "regressor \<Rightarrow> vec list \<Rightarrow> real list \<Rightarrow> regressor" where
  "regressor_fit g X y = g\<lparr>fitted := Some (X, y)\<rparr>"

text \<open>
  What the outside world answers during one call of \<^verbatim>\<open>predict\<close>: the prediction of
  \<^verbatim>\<open>Uniform(tunables).predict\<close>, the means and standard deviations of
  \<^verbatim>\<open>gp.predict(X, return_std=True)\<close>, and the number drawn by \<^verbatim>\<open>np.random.random()\<close>.
\<close>

record 'tn env =
  Uniform_predict :: "'tn \<Rightarrow> vec list \<Rightarrow> ndarray"
  gp_predict :: "regressor \<Rightarrow> vec list \<Rightarrow> fl list \<times> fl list"
  random_random :: real

text \<open>The calls a \<^verbatim>\<open>predict\<close> makes to the outside, in order.\<close>

datatype event = LogInfo | UniformCalled | GpCalled regressor

section \<open>The tuners\<close>

text \<open>
  A tuner object is a record of its attributes, with its class as a field; \<^verbatim>\<open>fit\<close>
  returns the updated object, \<^verbatim>\<open>predict\<close> and \<^verbatim>\<open>_acquire\<close> return their result or the
  error they raise. The observed scores are finite numbers.
\<close>

datatype tuner_class = GP | GPEi | GPMatern52Ei | GPEiVelocity

record 'tn tuner =
  cls :: tuner_class
  tunables :: 'tn
  gridding :: int
  r_minimum :: int
  self_X :: "vec list"
  self_y :: "real list"
  self_gp :: "regressor option"
  POU :: "fl option"

text \<open>
  Modelled from the spec: \<^verbatim>\<open>BaseTuner.__init__\<close> is not among the sources. The tuner
  keeps the tunables and the gridding it is given and owns the observation history, which
  is empty before the first fit. An attribute that is not set yet (\<^verbatim>\<open>gp\<close>, \<^verbatim>\<open>POU\<close>) is
  \<open>None\<close>.
\<close>

definition BaseTuner_init :: "tuner_class \<Rightarrow> 'tn \<Rightarrow> int \<Rightarrow> 'tn tuner" where
  "BaseTuner_init c tn g =
     \<lparr>cls = c, tunables = tn, gridding = g, r_minimum = 0, self_X = [], self_y = [],
      self_gp = None, POU = None\<rparr>"

text \<open>
  Modelled from the spec: \<^verbatim>\<open>BaseTuner.fit\<close> is not among the sources. The spec has
  \<^verbatim>\<open>fit(X, y)\<close> store \<open>X\<close> and \<open>y\<close>, replacing the observation history.
\<close>

definition BaseTuner_fit :: "'tn tuner \<Rightarrow> vec list \<Rightarrow> real list \<Rightarrow> 'tn tuner" where
  "BaseTuner_fit t X y = t\<lparr>self_X := X, self_y := y\<rparr>"

text \<open>
  Modelled from the spec: \<^verbatim>\<open>asarray2d\<close> (of \<^verbatim>\<open>btb.util\<close>) is not among the sources. The
  spec has the trained prediction hold a (mean, stdev) pair per candidate: the means and
  the standard deviations become columns, which \<^verbatim>\<open>np.hstack\<close> puts side by side, an array
  of shape \<open>(n, 2)\<close>. Columns of different heights make \<^verbatim>\<open>np.hstack\<close> raise.
\<close>

definition hstack_columns :: "fl list \<Rightarrow> fl list \<Rightarrow> py_error + ndarray" where
  "hstack_columns ys stdev =
     (if length ys = length stdev then Inr (Arr2 2 (map2 (\<lambda>m s. [m, s]) ys stdev))
      else Inl ValueError)"

subsection \<open>\<^verbatim>\<open>GP\<close>\<close>

definition GP_init :: "tuner_class \<Rightarrow> 'tn \<Rightarrow> int \<Rightarrow> int \<Rightarrow> 'tn tuner" where
  "GP_init c tn g r = (BaseTuner_init c tn g)\<lparr>r_minimum := r\<rparr>"

definition GP_fit :: "'tn tuner \<Rightarrow> vec list \<Rightarrow> real list \<Rightarrow> 'tn tuner" where
  "GP_fit t0 X y =
     (let t = BaseTuner_fit t0 X y in
      if int (length X) < r_minimum t then t
      else t\<lparr>self_gp := Some (regressor_fit (GaussianProcessRegressor None True) X y)\<rparr>)"

definition GP_predict ::
    "'tn env \<Rightarrow> 'tn tuner \<Rightarrow> vec list \<Rightarrow> py_error + (ndarray \<times> event list)" where
  "GP_predict e t X =
     (if int (length (self_X t)) < r_minimum t then
        Inr (Uniform_predict e (tunables t) X, [LogInfo, UniformCalled])
      else
        (case self_gp t of
           None \<Rightarrow> Inl AttributeError
         | Some g \<Rightarrow>
             (let (ys, stdev) = gp_predict e g X in
              case hstack_columns ys stdev of
                Inl err \<Rightarrow> Inl err
              | Inr predictions \<Rightarrow> Inr (predictions, [GpCalled g]))))"

definition GP_acquire :: "ndarray \<Rightarrow> py_error + nat" where
  "GP_acquire predictions =
     (case predictions of
        Arr1 xs \<Rightarrow> Inl IndexError
      | Arr2 c rows \<Rightarrow> if c = 0 then Inl IndexError else np_argmax (map (\<lambda>r. r ! 0) rows))"

subsection \<open>\<^verbatim>\<open>GPEi\<close>\<close>

definition compute_ei :: "fl \<Rightarrow> fl \<Rightarrow> fl \<Rightarrow> fl" where
  "compute_ei mu sigma t =
     (let Phi = norm_cdf;
          N = norm_pdf;
          z = fl_div (fl_sub mu t) sigma;
          ei = fl_mul sigma (fl_add (fl_mul z (Phi z)) (N z))
      in ei)"

text \<open>On arrays \<^verbatim>\<open>mu\<close> and \<^verbatim>\<open>sigma\<close> numpy computes element by element.\<close>

definition compute_ei_array :: "fl list \<Rightarrow> fl list \<Rightarrow> fl \<Rightarrow> fl list" where
  "compute_ei_array mu sigma t = map2 (\<lambda>m s. compute_ei m s t) mu sigma"

definition GPEi_acquire :: "'tn tuner \<Rightarrow> ndarray \<Rightarrow> py_error + nat" where
  "GPEi_acquire t predictions =
     (case predictions of
        Arr1 xs \<Rightarrow> GP_acquire predictions
      | Arr2 c rows \<Rightarrow>
          if c = 1 then GP_acquire predictions
          else if c \<noteq> 2 then Inl ValueError
          else
            (let mu = map (\<lambda>r. r ! 0) rows;
                 sigma = map (\<lambda>r. r ! 1) rows
             in case np_max (self_y t) of
                  Inl err \<Rightarrow> Inl err
                | Inr y_best \<Rightarrow> np_argmax (compute_ei_array mu sigma (Fin y_best))))"

subsection \<open>\<^verbatim>\<open>GPMatern52Ei\<close>\<close>

definition GPMatern52Ei_init :: "'tn \<Rightarrow> int \<Rightarrow> int \<Rightarrow> 'tn tuner" where
  "GPMatern52Ei_init tn g r =
     (let kernel = Matern (5 / 2) in
      (GP_init GPMatern52Ei tn g r)\<lparr>self_gp := Some (GaussianProcessRegressor (Some kernel) True)\<rparr>)"

subsection \<open>\<^verbatim>\<open>GPEiVelocity\<close>\<close>

definition MULTIPLIER :: real where
  "MULTIPLIER = - 100"

definition N_BEST_Y :: int where
  "N_BEST_Y = 5"

text \<open>The two lists that \<^verbatim>\<open>fit\<close> builds from the scores: \<^verbatim>\<open>top_y\<close> and \<^verbatim>\<open>velocities\<close>.\<close>

definition top_y_of :: "real list \<Rightarrow> real list" where
  "top_y_of y = py_slice_from (- N_BEST_Y) (sort y)"

definition velocities_of :: "real list \<Rightarrow> real list" where
  "velocities_of top_y = map (\<lambda>i. top_y ! (i + 1) - top_y ! i) [0 ..< length top_y - 1]"

definition GPEiVelocity_fit :: "'tn tuner \<Rightarrow> vec list \<Rightarrow> real list \<Rightarrow> 'tn tuner" where
  "GPEiVelocity_fit t0 X y =
     (let t = (GP_fit t0 X y)\<lparr>POU := Some (Fin 0)\<rparr> in
      if int (length y) \<ge> r_minimum t then
        (let top_y = top_y_of y;
             velocities = velocities_of top_y
         in t\<lparr>POU := Some (np_exp (fl_mul (Fin MULTIPLIER) (np_mean velocities)))\<rparr>)
      else t)"

definition GPEiVelocity_predict ::
    "'tn env \<Rightarrow> 'tn tuner \<Rightarrow> vec list \<Rightarrow> py_error + (ndarray \<times> event list)" where
  "GPEiVelocity_predict e t X =
     (case POU t of
        None \<Rightarrow> Inl AttributeError
      | Some p \<Rightarrow>
          if fl_less (Fin (random_random e)) p
          then Inr (Uniform_predict e (tunables t) X, [UniformCalled])
          else GP_predict e t X)"

subsection \<open>Method resolution\<close>

text \<open>Each call runs the method of the most derived class that defines it.\<close>

definition tuner_init :: "tuner_class \<Rightarrow> 'tn \<Rightarrow> int \<Rightarrow> int \<Rightarrow> 'tn tuner" where
  "tuner_init c tn g r = (if c = GPMatern52Ei then GPMatern52Ei_init tn g r else GP_init c tn g r)"

definition fit :: "'tn tuner \<Rightarrow> vec list \<Rightarrow> real list \<Rightarrow> 'tn tuner" where
  "fit t X y = (if cls t = GPEiVelocity then GPEiVelocity_fit t X y else GP_fit t X y)"

definition predict ::
    "'tn env \<Rightarrow> 'tn tuner \<Rightarrow> vec list \<Rightarrow> py_error + (ndarray \<times> event list)" where
  "predict e t X = (if cls t = GPEiVelocity then GPEiVelocity_predict e t X else GP_predict e t X)"

definition acquire :: "'tn tuner \<Rightarrow> ndarray \<Rightarrow> py_error + nat" where
  "acquire t predictions = (if cls t = GP then GP_acquire predictions else GPEi_acquire t predictions)"

section \<open>Binary64 arithmetic\<close>

text \<open>
  The operations of the first section leave a finite result exact. numpy computes in IEEE
  754 binary64: the result of an addition, subtraction, multiplication or division is the
  binary64 value nearest to the exact result, a tie goes to the value with the even
  significand, and a result whose rounded magnitude reaches \<open>2^1024\<close> is an infinity.
  \<open>ulp64 x\<close> is the distance between neighbouring binary64 values at \<open>x\<close>: \<open>2^(e - 52)\<close>
  for \<open>2^e \<le> |x| < 2^(e + 1)\<close>, and \<open>2^(-1074)\<close> below \<open>2^(-1022)\<close>, where the values are
  subnormal. The sign of zero is not modelled.
\<close>

definition round_half_even :: "real \<Rightarrow> int" where
  "round_half_even x =
     (let f = \<lfloor>x\<rfloor>; r = x - of_int f
      in if r < 1 / 2 then f else if 1 / 2 < r then f + 1 else if even f then f else f + 1)"

definition ulp64 :: "real \<Rightarrow> real" where
  "ulp64 x = 2 powr (of_int (max \<lfloor>log 2 \<bar>x\<bar>\<rfloor> (- 1022)) - 52)"

definition round64 :: "real \<Rightarrow> fl" where
  "round64 x =
     (if x = 0 then Fin 0
      else
        (let r = of_int (round_half_even (x / ulp64 x)) * ulp64 x
         in if 2 ^ 1024 \<le> \<bar>r\<bar> then (if 0 < x then PInf else NInf) else Fin r))"

text \<open>
  A binary64 operation is the exact operation followed by the rounding; the special
  values pass unchanged.
\<close>

definition f64 :: "fl \<Rightarrow> fl" where
  "f64 v = (case v of Fin x \<Rightarrow> round64 x | PInf \<Rightarrow> PInf | NInf \<Rightarrow> NInf | NaN \<Rightarrow> NaN)"






subsection \<open>The library functions in binary64\<close>






subsection \<open>The tuners in binary64\<close>










section \<open>The formulas of the specification\<close>

text \<open>
  The specification's closed form of the expected improvement of a candidate with mean
  \<open>mu\<close> and standard deviation \<open>sigma\<close> over the best score \<open>t\<close>, on real numbers.
\<close>

definition ei_formula :: "real \<Rightarrow> real \<Rightarrow> real \<Rightarrow> real" where
  "ei_formula mu sigma t =
     (let z = (mu - t) / sigma in sigma * (z * std_normal_cdf z + std_normal_pdf z))"

text \<open>
  The specification's velocity: the top \<open>n\<close> scores (the first \<open>n\<close> of the scores in
  descending order) taken in ascending order, the differences of adjacent ones, and their
  average, which exists when there is a difference to average.
\<close>

definition top_scores_ascending :: "nat \<Rightarrow> real list \<Rightarrow> real list" where
  "top_scores_ascending n y = rev (take n (rev (sort y)))"

definition consecutive_differences :: "real list \<Rightarrow> real list" where
  "consecutive_differences xs = map2 (\<lambda>a b. b - a) xs (tl xs)"

definition mean_velocity :: "nat \<Rightarrow> real list \<Rightarrow> real option" where
  "mean_velocity n y =
     (let d = consecutive_differences (top_scores_ascending n y)
      in if d = [] then None else Some (sum_list d / real (length d)))"



section \<open>The standard normal distribution function\<close>








section \<open>Facts about the numpy operations\<close>

lemma argmax_from_bound:
  "max_ind < i \<Longrightarrow> argmax_from mp max_ind i vs < i + length vs"
proof (induction vs arbitrary: mp max_ind i)
  case Nil
  then show ?case by simp
next
  case (Cons v vs)
  have a: "argmax_from mp max_ind (Suc i) vs < Suc i + length vs"
    using Cons.prems by (intro Cons.IH) simp
  have b: "argmax_from v i (Suc i) vs < Suc i + length vs"
    by (intro Cons.IH) simp
  show ?case using a b by simp
qed

lemma np_argmax_bound:
  assumes "xs \<noteq> []"
  shows "\<exists>i. np_argmax xs = Inr i \<and> i < length xs"
proof -
  obtain v vs where xs: "xs = v # vs" using assms by (cases xs) auto
  have "argmax_from v 0 1 vs < 1 + length vs" by (rule argmax_from_bound) simp
  then show ?thesis by (simp add: xs np_argmax_def)
qed

lemma np_max_Max: "ys \<noteq> [] \<Longrightarrow> np_max ys = Inr (Max (set ys))"
  by (cases ys) (simp_all add: np_max_def Max.set_eq_fold [symmetric])

lemma py_slice_from_neg:
  assumes "0 < k"
  shows "py_slice_from (- int k) xs = drop (length xs - k) xs"
proof -
  have "nat (max (int (length xs) + - int k) 0) = length xs - k" by linarith
  then show ?thesis using assms by (simp add: py_slice_from_def Let_def)
qed

section \<open>Expected improvement\<close>

lemma compute_ei_finite:
  "s \<noteq> 0 \<Longrightarrow> compute_ei (Fin mu) (Fin s) (Fin t) = Fin (ei_formula mu s t)"
  by (simp add: compute_ei_def ei_formula_def fl_sub_def Let_def)

lemma compute_ei_sigma_zero: "compute_ei mu (Fin 0) t = NaN"
  by (cases "fl_sub mu t") (auto simp: compute_ei_def signed_inf_def)




text \<open>
  C2: a candidate whose standard deviation is \<open>0\<close> should get the expected improvement
  \<open>0\<close>. The code divides by \<open>sigma\<close> unguarded: for \<open>sigma = 0\<close> the quotient \<open>z\<close> is an
  infinity or NaN, and the product of \<open>sigma = 0\<close> with the infinite or undefined bracket
  is NaN, whatever the mean and the best score are; so at \<open>mu = 0.5\<close>, \<open>t = 0.3\<close>.
\<close>

theorem compute_ei_zero_sigma_nan:
  "compute_ei (Fin (1 / 2)) (Fin 0) (Fin (3 / 10)) = NaN
   \<and> compute_ei (Fin (1 / 2)) (Fin 0) (Fin (3 / 10)) \<noteq> Fin 0
   \<and> (\<forall>mu t. compute_ei mu (Fin 0) t = NaN)"
  by (simp add: compute_ei_sigma_zero)

section \<open>Fitting\<close>

lemma r_minimum_fit: "r_minimum (fit t X y) = r_minimum t"
  by (simp add: fit_def GPEiVelocity_fit_def GP_fit_def BaseTuner_fit_def Let_def)

lemma self_X_fit: "self_X (fit t X y) = X"
  by (simp add: fit_def GPEiVelocity_fit_def GP_fit_def BaseTuner_fit_def Let_def)

lemma self_y_fit: "self_y (fit t X y) = y"
  by (simp add: fit_def GPEiVelocity_fit_def GP_fit_def BaseTuner_fit_def Let_def)

lemma cls_fit: "cls (fit t X y) = cls t"
  by (simp add: fit_def GPEiVelocity_fit_def GP_fit_def BaseTuner_fit_def Let_def)

lemma tunables_fit: "tunables (fit t X y) = tunables t"
  by (simp add: fit_def GPEiVelocity_fit_def GP_fit_def BaseTuner_fit_def Let_def)

lemma self_gp_fit:
  "r_minimum t \<le> int (length X) \<Longrightarrow>
     self_gp (fit t X y) = Some (regressor_fit (GaussianProcessRegressor None True) X y)"
  by (simp add: fit_def GPEiVelocity_fit_def GP_fit_def BaseTuner_fit_def Let_def)

lemma POU_GPEiVelocity_fit:
  "POU (GPEiVelocity_fit t X y) =
     Some (if r_minimum t \<le> int (length y)
           then np_exp (fl_mul (Fin MULTIPLIER) (np_mean (velocities_of (top_y_of y))))
           else Fin 0)"
  by (simp add: GPEiVelocity_fit_def GP_fit_def BaseTuner_fit_def Let_def)

text \<open>
  C3: a \<^verbatim>\<open>GPMatern52Ei\<close> tuner should consult a regressor with the Matern 5/2 kernel. Its
  constructor builds one, but \<^verbatim>\<open>fit\<close> is inherited from \<^verbatim>\<open>GP\<close> and replaces it by a new
  regressor with the default kernel whenever there are at least \<open>r_minimum\<close>
  observations: after the fit of three observations with \<open>r_minimum = 2\<close>, the regressor
  of the tuner, which \<^verbatim>\<open>predict\<close> queries, has the default kernel.
\<close>

theorem GPMatern52Ei_fit_default_kernel:
  "map_option kernel (self_gp (tuner_init GPMatern52Ei tn 0 2)) = Some (Some (Matern (5 / 2)))
   \<and> self_gp (fit (tuner_init GPMatern52Ei tn 0 2) [[1], [2], [3]] [1 / 10, 5 / 10, 9 / 10])
       = Some \<lparr>kernel = None, normalize_y = True,
               fitted = Some ([[1], [2], [3]], [1 / 10, 5 / 10, 9 / 10])\<rparr>
   \<and> predict e (fit (tuner_init GPMatern52Ei tn 0 2) [[1], [2], [3]] [1 / 10, 5 / 10, 9 / 10]) Xc
       = (let g = \<lparr>kernel = None, normalize_y = True,
                    fitted = Some ([[1], [2], [3]], [1 / 10, 5 / 10, 9 / 10])\<rparr>;
              (ys, stdev) = gp_predict e g Xc
          in case hstack_columns ys stdev of
               Inl err \<Rightarrow> Inl err
             | Inr predictions \<Rightarrow> Inr (predictions, [GpCalled g]))"
  by (simp add: predict_def GP_predict_def fit_def tuner_init_def GPMatern52Ei_init_def
      GP_init_def BaseTuner_init_def GP_fit_def BaseTuner_fit_def Let_def regressor_fit_def
      GaussianProcessRegressor_def)

section \<open>The probability of uniform selection\<close>

lemma velocities_zip: "velocities_of xs = consecutive_differences xs"
  unfolding velocities_of_def consecutive_differences_def
  by (rule nth_equalityI) (auto simp: nth_tl)

text \<open>The differences of adjacent entries telescope.\<close>

lemma sum_consecutive_differences:
  "xs \<noteq> [] \<Longrightarrow> sum_list (consecutive_differences xs) = last xs - hd xs"
proof (induction xs)
  case Nil
  then show ?case by simp
next
  case (Cons a xs)
  show ?case
  proof (cases xs)
    case Nil
    then show ?thesis by (simp add: consecutive_differences_def)
  next
    case (Cons b ys)
    with Cons.IH show ?thesis by (simp add: consecutive_differences_def)
  qed
qed

lemma top_y_of_drop: "top_y_of y = drop (length y - 5) (sort y)"
  using py_slice_from_neg [of 5 "sort y"] by (simp add: top_y_of_def N_BEST_Y_def)

lemma top_y_of_spec: "top_y_of y = top_scores_ascending (nat N_BEST_Y) y"
  by (simp add: top_y_of_drop top_scores_ascending_def N_BEST_Y_def take_rev)

lemma top_scores_ascending_min:
  "top_scores_ascending (min (length y) n) y = top_scores_ascending n y"
  by (simp add: top_scores_ascending_def min_def)

lemma length_top_y_of: "length (top_y_of y) = min (length y) (nat N_BEST_Y)"
  by (simp add: top_y_of_drop N_BEST_Y_def)

lemma sorted_top_y_of: "sorted (top_y_of y)"
  by (simp add: top_y_of_drop sorted_wrt_drop)

lemma length_velocities_of: "length (velocities_of xs) = length xs - 1"
  by (simp add: velocities_of_def)

lemma hd_last_nth: "2 \<le> length xs \<Longrightarrow> last xs = xs ! (length xs - 1) \<and> hd xs = xs ! 0"
  by (cases xs) (auto simp: last_conv_nth)

lemma np_mean_velocities:
  assumes "2 \<le> length xs"
  shows "np_mean (velocities_of xs) = Fin ((last xs - hd xs) / real (length xs - 1))"
proof -
  have ne: "xs \<noteq> []" using assms by auto
  have "velocities_of xs \<noteq> []"
    using assms length_velocities_of [of xs] by (cases "velocities_of xs") auto
  moreover have "sum_list (velocities_of xs) = last xs - hd xs"
    by (simp only: velocities_zip sum_consecutive_differences [OF ne])
  ultimately show ?thesis
    by (simp only: np_mean_def length_velocities_of if_False)
qed

lemma POU_top_two:
  assumes "r_minimum t \<le> int (length y)" and "2 \<le> length (top_y_of y)"
  shows "POU (GPEiVelocity_fit t X y) =
     Some (Fin (exp (MULTIPLIER *
       ((last (top_y_of y) - hd (top_y_of y)) / real (length (top_y_of y) - 1)))))"
  using assms by (simp add: POU_GPEiVelocity_fit np_mean_velocities)

lemma mean_velocity_eq:
  "np_mean (velocities_of (top_y_of y)) =
     (case mean_velocity (nat N_BEST_Y) y of None \<Rightarrow> NaN | Some v \<Rightarrow> Fin v)"
  by (simp add: mean_velocity_def np_mean_def top_y_of_spec velocities_zip Let_def)

text \<open>The average velocity is undefined exactly when there are fewer than two scores.\<close>

lemma mean_velocity_None: "mean_velocity (nat N_BEST_Y) y = None \<longleftrightarrow> length y \<le> 1"
proof -
  have "mean_velocity (nat N_BEST_Y) y = None \<longleftrightarrow> velocities_of (top_y_of y) = []"
    by (simp add: mean_velocity_def Let_def top_y_of_spec velocities_zip)
  also have "\<dots> \<longleftrightarrow> length (velocities_of (top_y_of y)) = 0"
    by simp
  also have "\<dots> \<longleftrightarrow> min (length y) (nat N_BEST_Y) - 1 = 0"
    by (simp only: length_velocities_of length_top_y_of)
  also have "\<dots> \<longleftrightarrow> length y \<le> 1"
    by (simp add: N_BEST_Y_def min_def)
  finally show ?thesis .
qed

text \<open>
  With two observations or more the stored value lies between \<open>0\<close> and \<open>1\<close>. (In exact
  arithmetic it is not \<open>0\<close>; the exponential of binary64 underflows to \<open>0\<close>.)
\<close>

lemma POU_in_unit_interval:
  assumes "r_minimum t \<le> int (length y)" and "2 \<le> length y"
  shows "\<exists>p. POU (GPEiVelocity_fit t X y) = Some (Fin p) \<and> 0 \<le> p \<and> p \<le> 1"
proof -
  let ?top = "top_y_of y"
  have len: "2 \<le> length ?top" using assms(2) by (simp add: length_top_y_of N_BEST_Y_def)
  then have ne: "?top \<noteq> []" by auto
  have "hd ?top \<le> last ?top"
    using sorted_top_y_of [of y] ne len
    by (simp add: hd_conv_nth last_conv_nth sorted_iff_nth_mono)
  then have "0 \<le> (last ?top - hd ?top) / real (length ?top - 1)" by simp
  then have "MULTIPLIER * ((last ?top - hd ?top) / real (length ?top - 1)) \<le> 0"
    by (intro mult_nonpos_nonneg) (simp_all add: MULTIPLIER_def)
  then have "exp (MULTIPLIER * ((last ?top - hd ?top) / real (length ?top - 1))) \<le> 1"
    by simp
  then show ?thesis using POU_top_two [OF assms(1) len] by simp
qed





text \<open>
  C7: after a fit with at least \<open>r_minimum\<close> observations the stored \<open>POU\<close> should lie
  between \<open>0\<close> and \<open>1\<close>. With \<open>r_minimum = 1\<close> and a single observation it does not: there
  is one top score and no velocity, the mean of no velocities is NaN, and \<open>POU\<close> is NaN,
  which is neither at least \<open>0\<close> nor at most \<open>1\<close>. (From two observations on the bounds
  hold: \<open>POU_in_unit_interval\<close>.)
\<close>

theorem POU_single_observation_nan:
  "POU (fit (tuner_init GPEiVelocity tn 0 1) [[1]] [1 / 10]) = Some NaN
   \<and> \<not> fl_le (Fin 0) NaN \<and> \<not> fl_le NaN (Fin 1)"
  by (simp add: fit_def tuner_init_def GP_init_def BaseTuner_init_def POU_GPEiVelocity_fit
      top_y_of_drop velocities_of_def np_mean_def)

text \<open>
  C6: every fit of a \<^verbatim>\<open>GPEiVelocity\<close> tuner with at least \<open>r_minimum\<close> scores should store
  \<open>POU = exp (MULTIPLIER * v)\<close>, with \<open>v\<close> the average of the differences of adjacent top
  scores. With \<open>r_minimum = 1\<close> and a single score there is no difference to average: the
  specification's average does not exist, the code takes numpy's mean of no values, which
  is NaN, and stores the NaN, which is \<open>exp (MULTIPLIER * v)\<close> for no \<open>v\<close>.
\<close>

theorem POU_single_observation_no_velocity:
  "POU (fit (tuner_init GPEiVelocity tn 0 1) [[1]] [1 / 10]) = Some NaN
   \<and> velocities_of (top_y_of [1 / 10]) = []
   \<and> mean_velocity (nat N_BEST_Y) [1 / 10] = None
   \<and> (\<forall>v. POU (fit (tuner_init GPEiVelocity tn 0 1) [[1]] [1 / 10])
            \<noteq> Some (Fin (exp (MULTIPLIER * v))))"
  by (simp add: fit_def tuner_init_def GP_init_def BaseTuner_init_def POU_GPEiVelocity_fit
      top_y_of_drop velocities_of_def np_mean_def mean_velocity_None)

section \<open>Predicting\<close>

text \<open>
  C4: a fit with fewer than \<open>r_minimum\<close> observations leaves the regressor as it was, and
  after it \<^verbatim>\<open>predict\<close> of every tuner class returns, without an error, what the uniform
  selector predicts for the candidates, and does not query the regressor.
\<close>

theorem predict_below_r_minimum_uniform:
  assumes "int (length X) < r_minimum t"
  shows "self_gp (fit t X y) = self_gp t
       \<and> (\<exists>evs. predict e (fit t X y) Xc = Inr (Uniform_predict e (tunables t) Xc, evs)
             \<and> (\<forall>g. GpCalled g \<notin> set evs))"
proof -
  have gp: "self_gp (fit t X y) = self_gp t"
    using assms
    by (simp add: fit_def GPEiVelocity_fit_def GP_fit_def BaseTuner_fit_def Let_def)
  have "\<exists>evs. predict e (fit t X y) Xc = Inr (Uniform_predict e (tunables t) Xc, evs)
           \<and> (\<forall>g. GpCalled g \<notin> set evs)"
  proof (cases "cls t = GPEiVelocity")
    case True
    then obtain p where "POU (fit t X y) = Some p"
      by (simp add: fit_def POU_GPEiVelocity_fit)
    then show ?thesis using assms True
      by (auto simp: predict_def GPEiVelocity_predict_def GP_predict_def cls_fit r_minimum_fit
          self_X_fit tunables_fit)
  next
    case False
    then show ?thesis using assms
      by (auto simp: predict_def GP_predict_def cls_fit r_minimum_fit self_X_fit tunables_fit)
  qed
  with gp show ?thesis by simp
qed

theorem predict_below_r_minimum_uniform_witness:
  "int (length [[1::real]]) < r_minimum (tuner_init GPEiVelocity () 0 2)
   \<and> (\<exists>evs. predict \<lparr>Uniform_predict = (\<lambda>tn xs. Arr2 1 (map (\<lambda>x. [Fin (1 / 2)]) xs)),
                      gp_predict = (\<lambda>g xs. ([], [])), random_random = 1 / 4\<rparr>
               (fit (tuner_init GPEiVelocity () 0 2) [[1]] [1 / 10]) [[4]]
             = Inr (Arr2 1 [[Fin (1 / 2)]], evs)
           \<and> (\<forall>g. GpCalled g \<notin> set evs))"
  using predict_below_r_minimum_uniform
    [where X = "[[1]]" and t = "tuner_init GPEiVelocity () 0 2" and y = "[1 / 10]"
       and Xc = "[[4]]"
       and e = "\<lparr>Uniform_predict = (\<lambda>tn xs. Arr2 1 (map (\<lambda>x. [Fin (1 / 2)]) xs)),
                 gp_predict = (\<lambda>g xs. ([], [])), random_random = 1 / 4\<rparr>"]
  by (simp add: tuner_init_def GP_init_def BaseTuner_init_def)

section \<open>Acquisition\<close>

lemma length_compute_ei_array:
  "length (compute_ei_array mu sigma t) = min (length mu) (length sigma)"
  by (simp add: compute_ei_array_def)

lemma GP_acquire_bound:
  assumes "rows \<noteq> []" "c \<noteq> 0"
  shows "\<exists>idx. GP_acquire (Arr2 c rows) = Inr idx \<and> idx < length rows"
  using np_argmax_bound [of "map (\<lambda>r. r ! 0) rows"] assms by (simp add: GP_acquire_def)

lemma GPEi_acquire_bound:
  assumes "rows \<noteq> []" "c = 1 \<or> c = 2 \<and> self_y t \<noteq> []"
  shows "\<exists>idx. GPEi_acquire t (Arr2 c rows) = Inr idx \<and> idx < length rows"
proof (cases "c = 1")
  case True
  then show ?thesis using GP_acquire_bound [of rows c] assms(1) by (simp add: GPEi_acquire_def)
next
  case False
  then have c: "c = 2" and y: "self_y t \<noteq> []" using assms(2) by auto
  define ei where
    "ei = compute_ei_array (map (\<lambda>r. r ! 0) rows) (map (\<lambda>r. r ! 1) rows) (Fin (Max (set (self_y t))))"
  have len: "length ei = length rows"
    by (simp add: ei_def length_compute_ei_array)
  then have "ei \<noteq> []" using assms(1) by auto
  from np_argmax_bound [OF this] obtain i where "np_argmax ei = Inr i" "i < length rows"
    using len by auto
  moreover have "GPEi_acquire t (Arr2 c rows) = np_argmax ei"
    by (simp add: GPEi_acquire_def c np_max_Max [OF y] ei_def del: One_nat_def)
  ultimately show ?thesis by simp
qed

text \<open>An array of one dimension makes the acquisition of every class raise.\<close>

lemma acquire_Arr1: "acquire t (Arr1 xs) = Inl IndexError"
  by (simp add: acquire_def GPEi_acquire_def GP_acquire_def)

text \<open>
  A candidate with standard deviation \<open>0\<close> has the expected improvement NaN, which
  \<^verbatim>\<open>argmax\<close> takes for the maximum: here the second candidate is chosen, though its mean
  \<open>0\<close> is below the best score \<open>0.5\<close> and the first candidate's mean is above it.
\<close>

lemma zero_sigma_candidate_selected:
  assumes "cls t \<noteq> GP" and "self_y t = [1 / 2]"
  shows "acquire t (Arr2 2 [[Fin (9 / 10), Fin (1 / 10)], [Fin 0, Fin 0]]) = Inr 1"
  using assms
  by (simp add: acquire_def GPEi_acquire_def np_max_def compute_ei_array_def
      compute_ei_sigma_zero compute_ei_finite np_argmax_def)

lemma acquire_Arr2_bound:
  assumes "rows \<noteq> []" and "c = 1 \<or> c = 2 \<and> (cls t = GP \<or> self_y t \<noteq> [])"
  shows "\<exists>idx. acquire t (Arr2 c rows) = Inr idx \<and> idx < length rows"
proof (cases "cls t = GP")
  case True
  have "c \<noteq> 0" using assms(2) by auto
  from GP_acquire_bound [OF assms(1) this] show ?thesis using True by (simp add: acquire_def)
next
  case False
  then have "c = 1 \<or> c = 2 \<and> self_y t \<noteq> []" using assms(2) by auto
  from GPEi_acquire_bound [OF assms(1) this] show ?thesis using False by (simp add: acquire_def)
qed

text \<open>
  What \<^verbatim>\<open>predict\<close> returns: the uniform selector's array, or rows of two values. With a
  uniform selector that returns a column of one score per candidate and a regressor that
  returns one mean and one standard deviation per candidate, the shape is \<open>(n, 1)\<close> or
  \<open>(n, 2)\<close> for \<open>n\<close> candidates, the latter only with at least \<open>r_minimum\<close> observations.
\<close>

lemma predict_shape:
  assumes "predict e t Xc = Inr (p, evs)"
    and "wf_ndarray (Uniform_predict e (tunables t) Xc)"
    and "shape (Uniform_predict e (tunables t) Xc) = [length Xc, 1]"
    and "\<forall>g. length (fst (gp_predict e g Xc)) = length Xc"
  shows "wf_ndarray p
       \<and> (shape p = [length Xc, 1]
           \<or> shape p = [length Xc, 2] \<and> r_minimum t \<le> int (length (self_X t)))"
  using assms
  by (auto simp: predict_def GPEiVelocity_predict_def GP_predict_def hstack_columns_def
      list_all_iff set_zip
      split: if_splits option.splits prod.splits sum.splits)
    (metis fst_conv)+

text \<open>
  Hence the index chosen for the prediction of a fitted tuner is valid: the fit is given
  as many scores as configurations, and at least one.
\<close>

lemma acquire_after_predict:
  assumes "length X = length y" and "X \<noteq> []" and "Xc \<noteq> []"
    and "predict e (fit t X y) Xc = Inr (p, evs)"
    and "wf_ndarray (Uniform_predict e (tunables t) Xc)"
    and "shape (Uniform_predict e (tunables t) Xc) = [length Xc, 1]"
    and "\<forall>g. length (fst (gp_predict e g Xc)) = length Xc"
  shows "\<exists>idx. acquire (fit t X y) p = Inr idx \<and> idx < length Xc"
proof -
  have y: "self_y (fit t X y) \<noteq> []" using assms(1,2) by (auto simp: self_y_fit)
  from predict_shape [OF assms(4)] assms(5,6,7)
  have sh: "shape p = [length Xc, 1] \<or> shape p = [length Xc, 2]"
    by (auto simp: tunables_fit)
  then obtain c rows where p: "p = Arr2 c rows" and n: "length rows = length Xc"
    and c: "c = 1 \<or> c = 2"
    by (cases p) auto
  have "rows \<noteq> []" using assms(3) n by auto
  from acquire_Arr2_bound [OF this, of c "fit t X y"] show ?thesis
    using c y n by (auto simp: p)
qed

text \<open>
  C8: on a well-formed, non-empty array of one of the shapes the tuner's \<^verbatim>\<open>predict\<close>
  returns, \<open>(n, 1)\<close> from the uniform selector or \<open>(n, 2)\<close> from the regressor (which is
  reached only with observations), the acquisition of every tuner class returns an index
  below \<open>n\<close> and raises no error.
\<close>

theorem acquire_index_valid:
  assumes "wf_ndarray predictions" and "0 < n"
    and "shape predictions = [n, 1]
         \<or> shape predictions = [n, 2] \<and> (cls t = GP \<or> self_y t \<noteq> [])"
  shows "\<exists>idx. acquire t predictions = Inr idx \<and> idx < n"
proof -
  from assms(3) obtain rows c where p: "predictions = Arr2 c rows" and n: "length rows = n"
    and c: "c = 1 \<or> c = 2 \<and> (cls t = GP \<or> self_y t \<noteq> [])"
    by (cases predictions) auto
  have "rows \<noteq> []" using assms(2) n by auto
  from acquire_Arr2_bound [OF this c] show ?thesis using n by (simp add: p)
qed

theorem acquire_index_valid_witness:
  "wf_ndarray (Arr2 2 [[Fin 0, Fin 1], [Fin 1, NaN], [Fin 2, Fin 0]]) \<and> (0::nat) < 3
   \<and> shape (Arr2 2 [[Fin 0, Fin 1], [Fin 1, NaN], [Fin 2, Fin 0]]) = [3, 2]
   \<and> self_y ((tuner_init GPEiVelocity () 0 2)\<lparr>self_y := [0]\<rparr>) \<noteq> []
   \<and> (\<exists>idx. acquire ((tuner_init GPEiVelocity () 0 2)\<lparr>self_y := [0]\<rparr>)
               (Arr2 2 [[Fin 0, Fin 1], [Fin 1, NaN], [Fin 2, Fin 0]]) = Inr idx \<and> idx < 3)"
  using acquire_index_valid
    [of "Arr2 2 [[Fin 0, Fin 1], [Fin 1, NaN], [Fin 2, Fin 0]]" 3
        "(tuner_init GPEiVelocity () 0 2)\<lparr>self_y := [0]\<rparr>"]
  by simp

section \<open>Rounding to binary64\<close>







lemma f64_simps [simp]: "f64 (Fin x) = round64 x" "f64 PInf = PInf" "f64 NInf = NInf" "f64 NaN = NaN"
  by (simp_all add: f64_def)

lemma round64_0 [simp]: "round64 0 = Fin 0"
  by (simp add: round64_def)

lemma round64_not_NaN [simp]: "round64 x \<noteq> NaN"
  by (simp add: round64_def Let_def)






















section \<open>Expected improvement in binary64\<close>


















section \<open>Acquisition in binary64\<close>




lemma fl_le_NaN [simp]: "\<not> fl_le a NaN"
  by (cases a) auto








section \<open>The probability of uniform selection in binary64\<close>







































end
